theory Spec2Isabelle
  imports Main "HOL-Library.AList" "HOL-Library.Sublist"
begin

section \<open>The command layer of policytool (cli.py)\<close>

text \<open>
  The module \<^verbatim>\<open>policytool/cli.py\<close> holds three commands: \<^verbatim>\<open>tags_to_atlas\<close>,
  \<^verbatim>\<open>rules_to_ranger\<close> and \<^verbatim>\<open>audit_tags\<close>. Each of them loads the configuration,
  checks that its source files exist, builds its clients and then calls into the
  modules \<^verbatim>\<open>tagsync\<close>, \<^verbatim>\<open>atlas\<close>, \<^verbatim>\<open>ranger\<close>, \<^verbatim>\<open>rangersync\<close> and \<^verbatim>\<open>template\<close>.

  A command is embedded as a function from its arguments to a pair: the sequence of
  observable events of the run (lines printed, objects constructed, calls into the
  other modules, in program order) and the way the run ends (the value returned, or
  the exception that leaves the command). What the other modules and the file system
  answer is a parameter of the model, the record \<open>world\<close>.
\<close>

subsection \<open>Data\<close>

text \<open>Values read from JSON files (configuration values, policy commands, policies,
  work logs and catalog entities are all plain JSON data in the program).\<close>

datatype json =
    JNull
  | JBool bool
  | JInt int
  | JStr string
  | JList "json list"
  | JObj "(string \<times> json) list"

text \<open>
  Modelled from the spec: the rows that \<^verbatim>\<open>tagsync.read_file\<close> returns (module
  \<^verbatim>\<open>tagsync\<close> lies outside cli.py). The specification's TagRecord
  identifies a catalog entity by schema, table and an optional column and carries a set
  of free-form tags. cli.py itself reads only the keys \<^verbatim>\<open>'schema'\<close> and \<^verbatim>\<open>'table'\<close>
  of a row (line 106).
\<close>

record tag_record =
  schema :: string
  table :: string
  column :: "string option"
  tags :: "string set"

text \<open>The exceptions a run can meet. Each carries the text of its \<^verbatim>\<open>message\<close>
  attribute, which is all the handlers of cli.py read (lines 74 and 202).\<close>

datatype exn =
    SyncError string
  | IOError string
  | KeyError string
  | OtherError string
  | ClickException string

text \<open>The per-environment configuration, \<^verbatim>\<open>JSONPropertiesFile(config).get(environment)\<close>:
  a dictionary of which cli.py reads four keys. A key that is absent is \<open>None\<close>.\<close>

record conf =
  atlas_api_url :: "string option"
  ranger_api_url :: "string option"
  retries :: "int option"
  variables :: "(string \<times> json) list option"

text \<open>\<^verbatim>\<open>tagsync.Sync(atlas_client, retries, sleep)\<close>: the object is determined by the
  arguments of its constructor. In \<^verbatim>\<open>audit\<close> only the client is given (line 145), so
  the two retry arguments are optional.\<close>

record tag_sync =
  atlas_client :: string
  retry_args :: "(int \<times> int) option"

text \<open>\<^verbatim>\<open>rangersync.RangerSync(ranger_client, verbose, dryrun)\<close>.\<close>

record ranger_sync =
  ranger_client :: string
  sync_verbose :: nat
  sync_dryrun :: bool

text \<open>The values stored in the dictionary from which the template \<^verbatim>\<open>Context\<close> is built
  (lines 108 to 117): two strings, the rows of the table file, the columns grouped by
  table, and whatever values the configuration declares.\<close>

datatype ctx_value =
    CStr string
  | CRows "tag_record list"
  | CGroups "(string \<times> tag_record list) list"
  | CJson json

text \<open>A dictionary whose iteration order may matter is an association list with
  distinct keys.\<close>

type_synonym context_dict = "(string \<times> ctx_value) list"

text \<open>The result of \<^verbatim>\<open>tagsync.diff_table_tags\<close> and \<^verbatim>\<open>tagsync.diff_column_tags\<close>: for an
  entity, the tags found only in the source and the tags found only in the catalog.\<close>

type_synonym tag_diffs = "(string \<times> (string list \<times> string list)) list"

type_synonym catalog = "(string \<times> json) list"

subsection \<open>Events and runs\<close>

datatype event =
    Print string
  | Load_config "string option" string
  | New_HTTPKerberosAuth
  | New_atlas_Client string
  | New_tagsync_Sync tag_sync
  | New_ranger_Client string
  | New_RangerSync ranger_sync
  | Read_file string
  | Sync_table_tags tag_sync "tag_record list"
  | Sync_column_tags tag_sync "tag_record list"
  | Print_sync_worklog json
  | Tags_from_src "tag_record list"
  | Schemas_from_src "tag_record list"
  | Tables_from_src "tag_record list"
  | Columns_from_src "tag_record list"
  | Tags_from_atlas tag_sync
  | Tables_from_atlas tag_sync "string list"
  | Columns_from_atlas tag_sync "string list"
  | Diff_table_tags "tag_record list" catalog
  | Diff_column_tags "tag_record list" catalog
  | Json_load string
  | Apply_commands json context_dict
  | Sync_policies ranger_sync "string list" "json list"

type_synonym 'a run = "event list \<times> (exn + 'a)"

definition ret :: "'a \<Rightarrow> 'a run" where
  "ret x = ([], Inr x)"

definition raise :: "exn \<Rightarrow> 'a run" where
  "raise e = ([], Inl e)"

definition emit :: "event \<Rightarrow> unit run" where
  "emit ev = ([ev], Inr ())"

text \<open>A call that may raise: the call is recorded, then it returns or raises.\<close>

definition call :: "event \<Rightarrow> exn + 'a \<Rightarrow> 'a run" where
  "call ev r = ([ev], r)"

text \<open>A call of a function that is a pure transformation of its arguments.\<close>

definition pure_call :: "event \<Rightarrow> 'a \<Rightarrow> 'a run" where
  "pure_call ev x = ([ev], Inr x)"

text \<open>Sequencing: an exception in the first part skips the second.\<close>

definition and_then :: "'a run \<Rightarrow> ('a \<Rightarrow> 'b run) \<Rightarrow> 'b run" where
  "and_then m f =
     (case m of
        (t, Inl e) \<Rightarrow> (t, Inl e)
      | (t, Inr x) \<Rightarrow> (case f x of (t', r) \<Rightarrow> (t @ t', r)))"

text \<open>\<^verbatim>\<open>try: m except ...: h\<close>, where the handler decides by the exception.\<close>

definition try_except :: "'a run \<Rightarrow> (exn \<Rightarrow> 'a run) \<Rightarrow> 'a run" where
  "try_except m h =
     (case m of
        (t, Inl e) \<Rightarrow> (case h e of (t', r) \<Rightarrow> (t @ t', r))
      | (t, Inr x) \<Rightarrow> (t, Inr x))"

text \<open>\<^verbatim>\<open>if c: m\<close> with no else branch.\<close>

definition when_true :: "bool \<Rightarrow> unit run \<Rightarrow> unit run" where
  "when_true c m = (if c then m else ret ())"

definition print_line :: "string \<Rightarrow> unit run" where
  "print_line s = emit (Print s)"

abbreviation trace :: "'a run \<Rightarrow> event list" where
  "trace \<equiv> fst"

abbreviation outcome :: "'a run \<Rightarrow> exn + 'a" where
  "outcome \<equiv> snd"

text \<open>The exit code of the process: click exits with 0 when the command returns
  (whatever it returns) and with a non-zero code when an exception leaves it.\<close>

definition exit_code :: "exn + 'a \<Rightarrow> int" where
  "exit_code r = (case r of Inr _ \<Rightarrow> 0 | Inl _ \<Rightarrow> 1)"

subsection \<open>Strings, paths and sets\<close>

text \<open>\<^verbatim>\<open>sep.join(xs)\<close>.\<close>

fun join :: "string \<Rightarrow> string list \<Rightarrow> string" where
  "join sep [] = []"
| "join sep [x] = x"
| "join sep (x # y # ys) = x @ sep @ join sep (y # ys)"

text \<open>\<^verbatim>\<open>os.path.join(a, b)\<close> on a POSIX system.\<close>

definition os_path_join :: "string \<Rightarrow> string \<Rightarrow> string" where
  "os_path_join a b =
     (if prefix ''/'' b then b
      else if a = [] \<or> last a = CHR ''/'' then a @ b
      else a @ ''/'' @ b)"

text \<open>A Python set of strings is a duplicate-free list, in the order in which the
  set is iterated. Python leaves that order open; the model fixes one, and no
  statement below depends on which.\<close>

definition pyset :: "string list \<Rightarrow> string list" where
  "pyset xs = remdups xs"

definition pyset_union :: "string list \<Rightarrow> string list \<Rightarrow> string list" where
  "pyset_union xs ys = remdups (xs @ ys)"

definition pyset_diff :: "string list \<Rightarrow> string list \<Rightarrow> string list" where
  "pyset_diff xs ys = remdups (filter (\<lambda>x. x \<notin> set ys) xs)"

subsection \<open>The collaborators\<close>

text \<open>
  What the file system and the other modules answer during one run. A function that
  reads a file or talks to a remote service returns its value or raises; the helpers of
  \<^verbatim>\<open>tagsync\<close> that only transform rows return a value. Each remote operation is
  called at most once in a run, so its answer may depend on everything that happened
  before it.
\<close>

record world =
  isfile :: "string \<Rightarrow> bool"
  JSONPropertiesFile_get :: "string option \<Rightarrow> string \<Rightarrow> exn + conf"
  read_file :: "string \<Rightarrow> exn + tag_record list"
  sync_table_tags :: "tag_sync \<Rightarrow> tag_record list \<Rightarrow> exn + json"
  sync_column_tags :: "tag_sync \<Rightarrow> tag_record list \<Rightarrow> exn + json"
  tags_from_src :: "tag_record list \<Rightarrow> string list"
  schemas_from_src :: "tag_record list \<Rightarrow> string list"
  tables_from_src :: "tag_record list \<Rightarrow> string list"
  columns_from_src :: "tag_record list \<Rightarrow> string list"
  tags_from_atlas :: "tag_sync \<Rightarrow> exn + string list"
  tables_from_atlas :: "tag_sync \<Rightarrow> string list \<Rightarrow> exn + catalog"
  columns_from_atlas :: "tag_sync \<Rightarrow> string list \<Rightarrow> exn + catalog"
  diff_table_tags :: "tag_record list \<Rightarrow> catalog \<Rightarrow> tag_diffs"
  diff_column_tags :: "tag_record list \<Rightarrow> catalog \<Rightarrow> tag_diffs"
  json_load :: "string \<Rightarrow> exn + json"
  apply_commands :: "json \<Rightarrow> context_dict \<Rightarrow> exn + json list"
  sync_policies :: "ranger_sync \<Rightarrow> string list \<Rightarrow> json list \<Rightarrow> exn + unit"

text \<open>
  Modelled from the spec: \<^verbatim>\<open>tagsync.add_environment\<close> (module \<^verbatim>\<open>tagsync\<close> lies
  outside cli.py). The specification's \<^verbatim>\<open>withEnvironment(records, env)\<close>
  stamps every record with the run's environment tag, added to the record's tag set and
  not kept as a separate field; it has no side effect.
\<close>

definition add_environment :: "tag_record list \<Rightarrow> string \<Rightarrow> tag_record list" where
  "add_environment records env = map (\<lambda>r. r\<lparr>tags := insert env (tags r)\<rparr>) records"

subsection \<open>Shared pieces of the commands\<close>

definition SLEEP_ON_RETRY_SECONDS :: int where
  "SLEEP_ON_RETRY_SECONDS = 60"

text \<open>\<^verbatim>\<open>_missing_files\<close> (lines 28 to 33).\<close>

definition missing_files :: "world \<Rightarrow> string list \<Rightarrow> string list" where
  "missing_files w files = filter (\<lambda>f. \<not> isfile w f) files"

text \<open>The early exit all three commands share (lines 52 to 55). The two adjacent
  string literals of line 53 are one literal, and \<^verbatim>\<open>join\<close> is called on it: the
  text \<^verbatim>\<open>Following files are missing: , \<close> is the separator put between the names.\<close>

definition report_missing :: "string list \<Rightarrow> int option run" where
  "report_missing missing =
     and_then (print_line (join (''Following files are missing: '' @ '', '') missing)) (\<lambda>_.
     and_then (print_line ''Will not run, exiting!'') (\<lambda>_.
     ret (Some 0)))"

text \<open>\<^verbatim>\<open>conf[key]\<close>: a missing key raises KeyError.\<close>

definition subscript :: "'a option \<Rightarrow> string \<Rightarrow> 'a run" where
  "subscript v key = (case v of None \<Rightarrow> raise (KeyError key) | Some x \<Rightarrow> ret x)"

text \<open>\<^verbatim>\<open>conf.get(key, default)\<close>.\<close>

definition get_default :: "'a option \<Rightarrow> 'a \<Rightarrow> 'a" where
  "get_default v d = (case v of None \<Rightarrow> d | Some x \<Rightarrow> x)"

subsection \<open>tags_to_atlas (lines 47 to 74)\<close>

text \<open>The body of the \<^verbatim>\<open>try\<close> statement, lines 62 to 72.\<close>

definition sync_tags :: "world \<Rightarrow> tag_sync \<Rightarrow> string \<Rightarrow> string \<Rightarrow> string \<Rightarrow> nat \<Rightarrow> unit run" where
  "sync_tags w sync_client table_file column_file environment verbose =
     and_then (when_true (verbose > 0) (print_line ''Syncing tags for tables.'')) (\<lambda>_.
     and_then (call (Read_file table_file) (read_file w table_file)) (\<lambda>src_data_table.
     and_then (call (Sync_table_tags sync_client (add_environment src_data_table environment))
                 (sync_table_tags w sync_client (add_environment src_data_table environment))) (\<lambda>log.
     and_then (when_true (verbose > 0)
                 (and_then (emit (Print_sync_worklog log)) (\<lambda>_.
                  print_line ''Syncing tags for columns.''))) (\<lambda>_.
     and_then (call (Read_file column_file) (read_file w column_file)) (\<lambda>src_data_column.
     and_then (call (Sync_column_tags sync_client (add_environment src_data_column environment))
                 (sync_column_tags w sync_client (add_environment src_data_column environment))) (\<lambda>log.
     when_true (verbose > 0) (emit (Print_sync_worklog log))))))))"

text \<open>The handler of lines 73 and 74.\<close>

definition sync_handler :: "exn \<Rightarrow> 'a run" where
  "sync_handler e =
     (case e of
        SyncError m \<Rightarrow> raise (ClickException (m @ '' Tag sync not complete, fix errors and re-run.''))
      | IOError m \<Rightarrow> raise (ClickException (m @ '' Tag sync not complete, fix errors and re-run.''))
      | _ \<Rightarrow> raise e)"

definition tags_to_atlas ::
  "world \<Rightarrow> string \<Rightarrow> string \<Rightarrow> nat \<Rightarrow> nat \<Rightarrow> string option \<Rightarrow> int option run" where
  "tags_to_atlas w srcdir environment retry verbose config =
     and_then (call (Load_config config environment) (JSONPropertiesFile_get w config environment)) (\<lambda>conf.
       let table_file = os_path_join srcdir ''table_tags.csv'';
           column_file = os_path_join srcdir ''column_tags.csv'';
           missing = missing_files w [table_file, column_file]
       in if length missing \<noteq> 0 then report_missing missing
          else
            and_then (emit New_HTTPKerberosAuth) (\<lambda>_.
            and_then (subscript (atlas_api_url conf) ''atlas_api_url'') (\<lambda>url.
            and_then (emit (New_atlas_Client url)) (\<lambda>_.
              let sync_client =
                    \<lparr>atlas_client = url,
                     retry_args = Some (int retry * get_default (retries conf) 1, SLEEP_ON_RETRY_SECONDS)\<rparr>
              in and_then (emit (New_tagsync_Sync sync_client)) (\<lambda>_.
                 and_then (try_except
                             (sync_tags w sync_client table_file column_file environment verbose)
                             sync_handler) (\<lambda>_.
                 ret None))))))"

subsection \<open>rules_to_ranger (lines 84 to 125)\<close>

text \<open>\<^verbatim>\<open>table_columns[key].append(column)\<close> on a \<^verbatim>\<open>defaultdict(list)\<close>: a key seen
  for the first time starts with the empty list.\<close>

definition append_column :: "tag_record \<Rightarrow> (string \<times> tag_record list) list \<Rightarrow> (string \<times> tag_record list) list" where
  "append_column c groups =
     (let key = schema c @ ''.'' @ table c
      in AList.update key (get_default (map_of groups key) [] @ [c]) groups)"

text \<open>The loop of lines 104 to 106.\<close>

definition group_columns :: "tag_record list \<Rightarrow> (string \<times> tag_record list) list" where
  "group_columns columns = fold append_column columns []"

text \<open>The loop of lines 116 and 117: \<^verbatim>\<open>context_dict[var['name']] = var['value']\<close>.\<close>

definition add_variables :: "(string \<times> json) list \<Rightarrow> context_dict \<Rightarrow> context_dict" where
  "add_variables vars d = fold (\<lambda>var d. AList.update (fst var) (CJson (snd var)) d) vars d"

text \<open>Lines 108 to 119. \<^verbatim>\<open>Context\<close> wraps the dictionary it is given.\<close>

definition make_context ::
  "conf \<Rightarrow> string \<Rightarrow> string \<Rightarrow> tag_record list \<Rightarrow> tag_record list \<Rightarrow> context_dict" where
  "make_context conf project_name environment tables columns =
     (let table_columns = group_columns columns;
          context_dict =
            [(''project_name'', CStr project_name),
             (''environment'', CStr environment),
             (''tables'', CRows tables),
             (''table_columns'', CGroups table_columns)]
      in add_variables (get_default (variables conf) []) context_dict)"

definition rules_to_ranger_cmd ::
  "world \<Rightarrow> string \<Rightarrow> string \<Rightarrow> string \<Rightarrow> string option \<Rightarrow> nat \<Rightarrow> bool \<Rightarrow> int option run" where
  "rules_to_ranger_cmd w srcdir project_name environment config verbose dryrun =
     and_then (call (Load_config config environment) (JSONPropertiesFile_get w config environment)) (\<lambda>conf.
       let table_file = os_path_join srcdir ''table_tags.csv'';
           column_file = os_path_join srcdir ''column_tags.csv'';
           policy_file = os_path_join srcdir ''ranger_policies.json'';
           missing = missing_files w [table_file, column_file, policy_file]
       in if length missing \<noteq> 0 then report_missing missing
          else
            and_then (subscript (ranger_api_url conf) ''ranger_api_url'') (\<lambda>ranger_server.
            and_then (emit New_HTTPKerberosAuth) (\<lambda>_.
            and_then (emit (New_ranger_Client ranger_server)) (\<lambda>_.
              let sync_client =
                    \<lparr>ranger_client = ranger_server, sync_verbose = verbose, sync_dryrun = dryrun\<rparr>
              in and_then (emit (New_RangerSync sync_client)) (\<lambda>_.
                 and_then (call (Read_file table_file) (read_file w table_file)) (\<lambda>tables.
                 and_then (call (Read_file column_file) (read_file w column_file)) (\<lambda>columns.
                   let context = make_context conf project_name environment tables columns
                   in and_then (call (Json_load policy_file) (json_load w policy_file)) (\<lambda>policy_commands.
                      and_then (call (Apply_commands policy_commands context)
                                  (apply_commands w policy_commands context)) (\<lambda>policies.
                      and_then (call (Sync_policies sync_client
                                        [project_name @ ''_'' @ environment, ''load_etl_''] policies)
                                  (sync_policies w sync_client
                                        [project_name @ ''_'' @ environment, ''load_etl_''] policies)) (\<lambda>_.
                      ret None))))))))))"

subsection \<open>audit_tags (lines 133 to 202)\<close>

text \<open>Lines 151 to 157: tags of the source files that the catalog does not know.\<close>

definition audit_unknown_tags ::
  "world \<Rightarrow> tag_sync \<Rightarrow> tag_record list \<Rightarrow> tag_record list \<Rightarrow> unit run" where
  "audit_unknown_tags w sync_client src_data_table src_data_column =
     and_then (pure_call (Tags_from_src src_data_table) (tags_from_src w src_data_table)) (\<lambda>table_tags.
     and_then (pure_call (Tags_from_src src_data_column) (tags_from_src w src_data_column)) (\<lambda>column_tags.
     and_then (call (Tags_from_atlas sync_client) (tags_from_atlas w sync_client)) (\<lambda>atlas_tags.
       let diff_tags = pyset_diff (pyset_union table_tags column_tags) atlas_tags
       in when_true (length diff_tags \<noteq> 0)
            (print_line (''Tag(s) missing in Atlas: '' @ join '', '' diff_tags)))))"

text \<open>Lines 159 to 181: the catalog is read, then tables and columns are compared by
  name. The two catalog listings are returned for the tag comparison that follows.\<close>

definition audit_presence ::
  "world \<Rightarrow> tag_sync \<Rightarrow> tag_record list \<Rightarrow> tag_record list \<Rightarrow> (catalog \<times> catalog) run" where
  "audit_presence w sync_client src_data_table src_data_column =
     and_then (pure_call (Schemas_from_src src_data_table) (schemas_from_src w src_data_table)) (\<lambda>schemas.
     and_then (call (Tables_from_atlas sync_client schemas) (tables_from_atlas w sync_client schemas)) (\<lambda>full_tables_atlas.
     and_then (pure_call (Tables_from_src src_data_column) (tables_from_src w src_data_column)) (\<lambda>tables.
     and_then (call (Columns_from_atlas sync_client tables) (columns_from_atlas w sync_client tables)) (\<lambda>full_columns_atlas.
     and_then (pure_call (Tables_from_src src_data_table) (tables_from_src w src_data_table)) (\<lambda>tables_of_src.
       let tables_atlas = pyset (map fst full_tables_atlas);
           tables_src = pyset tables_of_src;
           tables_only_atlas = pyset_diff tables_atlas tables_src
       in and_then (when_true (length tables_only_atlas \<noteq> 0)
                      (print_line (''Tables only found in Atlas schema: '' @ join '', '' tables_only_atlas))) (\<lambda>_.
          let tables_only_src = pyset_diff tables_src tables_atlas
          in and_then (when_true (length tables_only_src \<noteq> 0)
                         (print_line (''Tables only found in metadata schema: '' @ join '', '' tables_only_src))) (\<lambda>_.
             and_then (pure_call (Columns_from_src src_data_column) (columns_from_src w src_data_column)) (\<lambda>columns_of_src.
               let columns_atlas = pyset (map fst full_columns_atlas);
                   columns_src = pyset columns_of_src;
                   column_only_src = pyset_diff columns_src columns_atlas
               in and_then (when_true (length column_only_src \<noteq> 0)
                              (print_line (''Columns only found in metadata: '' @ join '', '' column_only_src))) (\<lambda>_.
                  ret (full_tables_atlas, full_columns_atlas))))))))))"

text \<open>The loops of lines 185 to 190 and 194 to 199. A dictionary has each key once, so
  running over its keys and looking each one up is running over its items.\<close>

fun report_table_diffs :: "tag_diffs \<Rightarrow> unit run" where
  "report_table_diffs [] = ret ()"
| "report_table_diffs ((d, only_src, only_atlas) # diffs) =
     and_then (when_true (length only_src \<noteq> 0)
                 (print_line (''Atlas missing following tags for table: '' @ d @ '' tags: '' @ join '', '' only_src))) (\<lambda>_.
     and_then (when_true (length only_atlas \<noteq> 0)
                 (print_line (''Metadata missing following tags for table: '' @ d @ '' tags: '' @ join '', '' only_atlas))) (\<lambda>_.
     report_table_diffs diffs))"

fun report_column_diffs :: "tag_diffs \<Rightarrow> unit run" where
  "report_column_diffs [] = ret ()"
| "report_column_diffs ((d, only_src, only_atlas) # diffs) =
     and_then (when_true (length only_src \<noteq> 0)
                 (print_line (''Atlas missing following tags for column: '' @ d @ '' tags: '' @ join '', '' only_src))) (\<lambda>_.
     and_then (when_true (length only_atlas \<noteq> 0)
                 (print_line (''Metadata missing following tags for column: '' @ d @ '' tags: '' @ join '', '' only_atlas))) (\<lambda>_.
     report_column_diffs diffs))"

text \<open>Lines 183 to 199.\<close>

definition audit_tag_diffs ::
  "world \<Rightarrow> tag_record list \<Rightarrow> tag_record list \<Rightarrow> catalog \<Rightarrow> catalog \<Rightarrow> unit run" where
  "audit_tag_diffs w src_data_table src_data_column full_tables_atlas full_columns_atlas =
     and_then (pure_call (Diff_table_tags src_data_table full_tables_atlas)
                 (diff_table_tags w src_data_table full_tables_atlas)) (\<lambda>diffs.
     and_then (report_table_diffs diffs) (\<lambda>_.
     and_then (pure_call (Diff_column_tags src_data_column full_columns_atlas)
                 (diff_column_tags w src_data_column full_columns_atlas)) (\<lambda>diffs.
     report_column_diffs diffs)))"

text \<open>The body of the \<^verbatim>\<open>try\<close> statement, lines 148 to 199.\<close>

definition audit_tags :: "world \<Rightarrow> tag_sync \<Rightarrow> string \<Rightarrow> string \<Rightarrow> string \<Rightarrow> unit run" where
  "audit_tags w sync_client table_file column_file environment =
     and_then (call (Read_file table_file) (read_file w table_file)) (\<lambda>rows_table.
       let src_data_table = add_environment rows_table environment
       in and_then (call (Read_file column_file) (read_file w column_file)) (\<lambda>rows_column.
            let src_data_column = add_environment rows_column environment
            in and_then (audit_unknown_tags w sync_client src_data_table src_data_column) (\<lambda>_.
               and_then (audit_presence w sync_client src_data_table src_data_column) (\<lambda>atlas.
               audit_tag_diffs w src_data_table src_data_column (fst atlas) (snd atlas)))))"

text \<open>The handler of lines 201 and 202.\<close>

definition audit_handler :: "exn \<Rightarrow> 'a run" where
  "audit_handler e = (case e of IOError m \<Rightarrow> raise (ClickException m) | _ \<Rightarrow> raise e)"

definition audit :: "world \<Rightarrow> string \<Rightarrow> string \<Rightarrow> string option \<Rightarrow> int option run" where
  "audit w srcdir environment config =
     and_then (call (Load_config config environment) (JSONPropertiesFile_get w config environment)) (\<lambda>conf.
       let table_file = os_path_join srcdir ''table_tags.csv'';
           column_file = os_path_join srcdir ''column_tags.csv'';
           missing = missing_files w [table_file, column_file]
       in if length missing \<noteq> 0 then report_missing missing
          else
            and_then (emit New_HTTPKerberosAuth) (\<lambda>_.
            and_then (subscript (atlas_api_url conf) ''atlas_api_url'') (\<lambda>url.
            and_then (emit (New_atlas_Client url)) (\<lambda>_.
              let sync_client = \<lparr>atlas_client = url, retry_args = None\<rparr>
              in and_then (emit (New_tagsync_Sync sync_client)) (\<lambda>_.
                 and_then (try_except
                             (audit_tags w sync_client table_file column_file environment)
                             audit_handler) (\<lambda>_.
                 ret None))))))"

subsection \<open>Reading a run\<close>

abbreviation table_file :: "string \<Rightarrow> string" where
  "table_file srcdir \<equiv> os_path_join srcdir ''table_tags.csv''"

abbreviation column_file :: "string \<Rightarrow> string" where
  "column_file srcdir \<equiv> os_path_join srcdir ''column_tags.csv''"

abbreviation policy_file :: "string \<Rightarrow> string" where
  "policy_file srcdir \<equiv> os_path_join srcdir ''ranger_policies.json''"

text \<open>The lines a run prints, in order.\<close>

definition printed :: "event list \<Rightarrow> string list" where
  "printed tr = concat (map (\<lambda>ev. case ev of Print s \<Rightarrow> [s] | _ \<Rightarrow> []) tr)"

text \<open>The calls that reach the catalog: every method of \<^verbatim>\<open>tagsync.Sync\<close> that cli.py
  calls.\<close>

fun catalog_call :: "event \<Rightarrow> bool" where
  "catalog_call (Sync_table_tags c rs) = True"
| "catalog_call (Sync_column_tags c rs) = True"
| "catalog_call (Tags_from_atlas c) = True"
| "catalog_call (Tables_from_atlas c xs) = True"
| "catalog_call (Columns_from_atlas c xs) = True"
| "catalog_call _ = False"

text \<open>The source records an event hands to \<^verbatim>\<open>tagsync\<close>.\<close>

fun event_records :: "event \<Rightarrow> tag_record list" where
  "event_records (Sync_table_tags c rs) = rs"
| "event_records (Sync_column_tags c rs) = rs"
| "event_records (Tags_from_src rs) = rs"
| "event_records (Schemas_from_src rs) = rs"
| "event_records (Tables_from_src rs) = rs"
| "event_records (Columns_from_src rs) = rs"
| "event_records (Diff_table_tags rs atlas) = rs"
| "event_records (Diff_column_tags rs atlas) = rs"
| "event_records _ = []"

text \<open>The events that construct a client of a remote service or call one.\<close>

fun remote_event :: "event \<Rightarrow> bool" where
  "remote_event (Print s) = False"
| "remote_event (Load_config c e) = False"
| "remote_event (Read_file f) = False"
| "remote_event (Json_load f) = False"
| "remote_event (Print_sync_worklog l) = False"
| "remote_event (Tags_from_src rs) = False"
| "remote_event (Schemas_from_src rs) = False"
| "remote_event (Tables_from_src rs) = False"
| "remote_event (Columns_from_src rs) = False"
| "remote_event (Diff_table_tags rs a) = False"
| "remote_event (Diff_column_tags rs a) = False"
| "remote_event (Apply_commands cs ctx) = False"
| "remote_event _ = True"

subsection \<open>A sample installation\<close>

text \<open>One table with two columns in the source files; the catalog knows column A and a
  column C that the source does not list. The configuration sets three retries and
  declares a variable named \<^verbatim>\<open>environment\<close>.\<close>

definition sample_conf :: conf where
  "sample_conf =
     \<lparr>atlas_api_url = Some ''http://atlas'',
      ranger_api_url = Some ''http://ranger'',
      retries = Some 3,
      variables = Some [(''environment'', JStr ''staging''), (''owner'', JStr ''etl'')]\<rparr>"

definition sample_tables :: "tag_record list" where
  "sample_tables = [\<lparr>schema = ''sales'', table = ''orders'', column = None, tags = {''pii'', ''finance''}\<rparr>]"

definition sample_columns :: "tag_record list" where
  "sample_columns =
     [\<lparr>schema = ''sales'', table = ''orders'', column = Some ''A'', tags = {''pii''}\<rparr>,
      \<lparr>schema = ''sales'', table = ''orders'', column = Some ''B'', tags = {}\<rparr>]"

definition sample_world :: world where
  "sample_world =
     \<lparr>isfile = (\<lambda>f. True),
      JSONPropertiesFile_get = (\<lambda>config environment. Inr sample_conf),
      read_file = (\<lambda>f. if f = ''src/table_tags.csv'' then Inr sample_tables else Inr sample_columns),
      sync_table_tags = (\<lambda>c rs. Inr (JList [])),
      sync_column_tags = (\<lambda>c rs. Inr (JList [])),
      tags_from_src = (\<lambda>rs. if length rs = 1 then [''pii'', ''finance'', ''prod''] else [''pii'', ''prod'']),
      schemas_from_src = (\<lambda>rs. [''sales'']),
      tables_from_src = (\<lambda>rs. [''sales.orders'']),
      columns_from_src = (\<lambda>rs. [''A'', ''B'']),
      tags_from_atlas = (\<lambda>c. Inr [''pii'']),
      tables_from_atlas = (\<lambda>c schemas. Inr [(''sales.orders'', JNull), (''sales.legacy'', JNull)]),
      columns_from_atlas = (\<lambda>c tables. Inr [(''A'', JNull), (''C'', JNull)]),
      diff_table_tags = (\<lambda>rs atlas. [(''sales.orders'', ([''finance'', ''prod''], []))]),
      diff_column_tags = (\<lambda>rs atlas. [(''A'', ([''prod''], [''old'']))]),
      json_load = (\<lambda>f. Inr (JList [])),
      apply_commands = (\<lambda>commands ctx. Inr [JStr ''policy'']),
      sync_policies = (\<lambda>c prefixes policies. Inr ())\<rparr>"

text \<open>The same installation with a catalog that refuses the column tags.\<close>

definition failing_world :: world where
  "failing_world = sample_world\<lparr>sync_column_tags := (\<lambda>c rs. Inl (SyncError ''Atlas refused the tags.''))\<rparr>"

text \<open>The same installation with a catalog that cannot be reached.\<close>

definition offline_world :: world where
  "offline_world = sample_world\<lparr>tags_from_atlas := (\<lambda>c. Inl (IOError ''Connection refused''))\<rparr>"

text \<open>The calls of the policy syncer.\<close>

fun policy_sync_call :: "event \<Rightarrow> bool" where
  "policy_sync_call (Sync_policies c names policies) = True"
| "policy_sync_call _ = False"

text \<open>The same installation with only the table file in place.\<close>

definition empty_world :: world where
  "empty_world = sample_world\<lparr>isfile := (\<lambda>f. f = ''src/table_tags.csv'')\<rparr>"

section \<open>Properties\<close>

subsection \<open>How runs compose\<close>

lemma and_then_pair [simp]:
  "and_then (t, r) f = (case r of Inl e \<Rightarrow> (t, Inl e) | Inr x \<Rightarrow> (t @ fst (f x), snd (f x)))"
  by (simp add: and_then_def split: sum.splits prod.splits)

lemma try_except_pair [simp]:
  "try_except (t, r) h = (case r of Inl e \<Rightarrow> (t @ fst (h e), snd (h e)) | Inr x \<Rightarrow> (t, Inr x))"
  by (simp add: try_except_def split: sum.splits prod.splits)

lemma trace_and_then:
  "trace (and_then m f) = trace m @ (case outcome m of Inl e \<Rightarrow> [] | Inr x \<Rightarrow> trace (f x))"
  by (cases m) (simp split: sum.splits)

lemma outcome_and_then:
  "outcome (and_then m f) = (case outcome m of Inl e \<Rightarrow> Inl e | Inr x \<Rightarrow> outcome (f x))"
  by (cases m) (simp split: sum.splits)

lemma trace_try_except:
  "trace (try_except m h) = trace m @ (case outcome m of Inl e \<Rightarrow> trace (h e) | Inr x \<Rightarrow> [])"
  by (cases m) (simp split: sum.splits)

lemma outcome_try_except:
  "outcome (try_except m h) = (case outcome m of Inl e \<Rightarrow> outcome (h e) | Inr x \<Rightarrow> Inr x)"
  by (cases m) (simp split: sum.splits)

lemmas run_simps =
  ret_def raise_def emit_def call_def pure_call_def when_true_def print_line_def
  subscript_def get_default_def

subsection \<open>The runs of tags_to_atlas\<close>

lemma sync_tags_events:
  "ev \<in> set (trace (sync_tags w c tf cf env verbose)) \<Longrightarrow>
     (\<exists>s. ev = Print s) \<or> (\<exists>f. ev = Read_file f) \<or> (\<exists>l. ev = Print_sync_worklog l)
     \<or> (\<exists>rs. ev = Sync_table_tags c rs) \<or> (\<exists>rs. ev = Sync_column_tags c rs)"
  unfolding sync_tags_def
  by (auto simp: run_simps split: sum.splits if_splits)

lemma tags_to_atlas_no_conf:
  assumes "JSONPropertiesFile_get w config environment = Inl e"
  shows "tags_to_atlas w srcdir environment retry verbose config =
    ([Load_config config environment], Inl e)"
  using assms unfolding tags_to_atlas_def
  by (simp add: run_simps Let_def)

lemma tags_to_atlas_missing:
  assumes "JSONPropertiesFile_get w config environment = Inr conf"
    and "missing_files w [table_file srcdir, column_file srcdir] \<noteq> []"
  shows "tags_to_atlas w srcdir environment retry verbose config =
    ([Load_config config environment,
      Print (join ''Following files are missing: , '' (missing_files w [table_file srcdir, column_file srcdir])),
      Print ''Will not run, exiting!''], Inr (Some 0))"
  using assms unfolding tags_to_atlas_def
  by (simp add: run_simps Let_def report_missing_def)

lemma tags_to_atlas_no_url:
  assumes "JSONPropertiesFile_get w config environment = Inr conf"
    and "missing_files w [table_file srcdir, column_file srcdir] = []"
    and "atlas_api_url conf = None"
  shows "tags_to_atlas w srcdir environment retry verbose config =
    ([Load_config config environment, New_HTTPKerberosAuth], Inl (KeyError ''atlas_api_url''))"
  using assms unfolding tags_to_atlas_def
  by (simp add: run_simps Let_def)

lemma tags_to_atlas_run:
  assumes "JSONPropertiesFile_get w config environment = Inr conf"
    and "missing_files w [table_file srcdir, column_file srcdir] = []"
    and "atlas_api_url conf = Some url"
    and "c = \<lparr>atlas_client = url, retry_args = Some (int retry * (case retries conf of None \<Rightarrow> 1 | Some r \<Rightarrow> r), 60)\<rparr>"
    and "body = sync_tags w c (table_file srcdir) (column_file srcdir) environment verbose"
  shows "tags_to_atlas w srcdir environment retry verbose config =
    ([Load_config config environment, New_HTTPKerberosAuth, New_atlas_Client url, New_tagsync_Sync c] @ trace body,
     case outcome body of
       Inl (SyncError m) \<Rightarrow> Inl (ClickException (m @ '' Tag sync not complete, fix errors and re-run.''))
     | Inl (IOError m) \<Rightarrow> Inl (ClickException (m @ '' Tag sync not complete, fix errors and re-run.''))
     | Inl e \<Rightarrow> Inl e
     | Inr _ \<Rightarrow> Inr None)"
  using assms unfolding tags_to_atlas_def
  by (simp add: run_simps Let_def SLEEP_ON_RETRY_SECONDS_def trace_try_except outcome_try_except
      trace_and_then outcome_and_then sync_handler_def prod_eq_iff split: sum.splits option.splits exn.splits)

subsection \<open>The retry budget\<close>

text \<open>
  Claim C1. In a run of \<^verbatim>\<open>tags_to_atlas\<close> whose configuration has loaded, every tag
  syncer that is constructed, and every tag syncer on which a sync method is called,
  was given the retry budget (number of \<^verbatim>\<open>--retry\<close> flags) times (the configured
  \<^verbatim>\<open>retries\<close>, 1 when the key is absent) and the delay of 60 seconds; the syncer is
  constructed as soon as no source file is missing and the catalog address is
  configured; and without a \<^verbatim>\<open>--retry\<close> flag the budget is 0 whatever is configured.
\<close>

theorem tags_to_atlas_retry_budget:
  assumes "JSONPropertiesFile_get w config environment = Inr conf"
  shows "(\<forall>c. New_tagsync_Sync c \<in> set (trace (tags_to_atlas w srcdir environment retry verbose config)) \<longrightarrow>
            retry_args c = Some (int retry * (case retries conf of None \<Rightarrow> 1 | Some r \<Rightarrow> r), 60))
       \<and> (\<forall>c rs. Sync_table_tags c rs \<in> set (trace (tags_to_atlas w srcdir environment retry verbose config))
               \<or> Sync_column_tags c rs \<in> set (trace (tags_to_atlas w srcdir environment retry verbose config)) \<longrightarrow>
            retry_args c = Some (int retry * (case retries conf of None \<Rightarrow> 1 | Some r \<Rightarrow> r), 60))
       \<and> (\<forall>url. missing_files w [table_file srcdir, column_file srcdir] = [] \<and> atlas_api_url conf = Some url \<longrightarrow>
            New_tagsync_Sync \<lparr>atlas_client = url,
               retry_args = Some (int retry * (case retries conf of None \<Rightarrow> 1 | Some r \<Rightarrow> r), 60)\<rparr>
              \<in> set (trace (tags_to_atlas w srcdir environment retry verbose config)))
       \<and> (retry = 0 \<longrightarrow>
            (\<forall>c. New_tagsync_Sync c \<in> set (trace (tags_to_atlas w srcdir environment retry verbose config)) \<longrightarrow>
               retry_args c = Some (0, 60)))"
proof (cases "missing_files w [table_file srcdir, column_file srcdir] = []")
  case False
  show ?thesis using False by (simp add: tags_to_atlas_missing[OF assms False])
next
  case True
  show ?thesis
  proof (cases "atlas_api_url conf")
    case None
    show ?thesis using True None by (simp add: tags_to_atlas_no_url[OF assms True None])
  next
    case (Some url)
    show ?thesis using True Some
      by (auto simp: tags_to_atlas_run[OF assms True Some refl refl] dest: sync_tags_events)
  qed
qed

text \<open>Two flags and three configured retries give a budget of six; no flag gives zero.\<close>

theorem tags_to_atlas_retry_budget_witness:
  "New_tagsync_Sync \<lparr>atlas_client = ''http://atlas'', retry_args = Some (6, 60)\<rparr>
     \<in> set (trace (tags_to_atlas sample_world ''src'' ''prod'' 2 0 None))
   \<and> New_tagsync_Sync \<lparr>atlas_client = ''http://atlas'', retry_args = Some (0, 60)\<rparr>
     \<in> set (trace (tags_to_atlas sample_world ''src'' ''prod'' 0 0 None))"
  using tags_to_atlas_retry_budget[of sample_world None "''prod''" sample_conf "''src''" 2 0]
    tags_to_atlas_retry_budget[of sample_world None "''prod''" sample_conf "''src''" 0 0]
  by (simp add: sample_world_def sample_conf_def missing_files_def)

subsection \<open>Tables before columns\<close>

lemma sample_paths:
  "table_file ''src'' = ''src/table_tags.csv''"
  "column_file ''src'' = ''src/column_tags.csv''"
  "policy_file ''src'' = ''src/ranger_policies.json''"
  by (simp_all add: os_path_join_def)

lemma sync_tags_catalog_calls:
  "filter catalog_call (trace (sync_tags w c tf cf env verbose)) =
     (case read_file w tf of
        Inl e \<Rightarrow> []
      | Inr rt \<Rightarrow> Sync_table_tags c (add_environment rt env) #
          (case sync_table_tags w c (add_environment rt env) of
             Inl e \<Rightarrow> []
           | Inr log \<Rightarrow>
               (case read_file w cf of
                  Inl e \<Rightarrow> []
                | Inr rc \<Rightarrow> [Sync_column_tags c (add_environment rc env)])))"
  unfolding sync_tags_def
  by (simp add: run_simps split: sum.splits)

text \<open>
  Claim C3. The calls that a run of \<^verbatim>\<open>tags_to_atlas\<close> makes to the catalog are, in
  order: none; or the sync of the table records alone; or the sync of the table records
  followed by the sync of the column records, and then the table sync has returned its
  work log. No other call to the catalog is made, so nothing is looked up before the
  columns are pushed. When the configuration loads, no file is missing, the catalog
  address is configured, both files are read and the table sync returns, the calls are
  exactly the table sync and then the column sync.
\<close>

theorem tags_to_atlas_tables_before_columns:
  "(filter catalog_call (trace (tags_to_atlas w srcdir environment retry verbose config)) = []
    \<or> (\<exists>c T. filter catalog_call (trace (tags_to_atlas w srcdir environment retry verbose config)) =
           [Sync_table_tags c T])
    \<or> (\<exists>c T C log. filter catalog_call (trace (tags_to_atlas w srcdir environment retry verbose config)) =
           [Sync_table_tags c T, Sync_column_tags c C] \<and> sync_table_tags w c T = Inr log))
   \<and> (\<forall>conf url c rt log rc.
         JSONPropertiesFile_get w config environment = Inr conf \<and>
         missing_files w [table_file srcdir, column_file srcdir] = [] \<and>
         atlas_api_url conf = Some url \<and>
         c = \<lparr>atlas_client = url,
              retry_args = Some (int retry * (case retries conf of None \<Rightarrow> 1 | Some r \<Rightarrow> r), 60)\<rparr> \<and>
         read_file w (table_file srcdir) = Inr rt \<and>
         sync_table_tags w c (add_environment rt environment) = Inr log \<and>
         read_file w (column_file srcdir) = Inr rc \<longrightarrow>
         filter catalog_call (trace (tags_to_atlas w srcdir environment retry verbose config)) =
           [Sync_table_tags c (add_environment rt environment),
            Sync_column_tags c (add_environment rc environment)])"
proof (cases "JSONPropertiesFile_get w config environment")
  case (Inl e)
  show ?thesis using Inl by (simp add: tags_to_atlas_no_conf[OF Inl])
next
  case (Inr conf)
  show ?thesis
  proof (cases "missing_files w [table_file srcdir, column_file srcdir] = []")
    case False
    show ?thesis using Inr False by (simp add: tags_to_atlas_missing[OF Inr False])
  next
    case True
    show ?thesis
    proof (cases "atlas_api_url conf")
      case None
      show ?thesis using Inr True None by (simp add: tags_to_atlas_no_url[OF Inr True None])
    next
      case (Some url)
      show ?thesis using Inr True Some
        by (auto simp: tags_to_atlas_run[OF Inr True Some refl refl] sync_tags_catalog_calls
            split: sum.splits)
    qed
  qed
qed

theorem tags_to_atlas_tables_before_columns_witness:
  "filter catalog_call (trace (tags_to_atlas sample_world ''src'' ''prod'' 2 1 None)) =
     [Sync_table_tags \<lparr>atlas_client = ''http://atlas'', retry_args = Some (6, 60)\<rparr>
        (add_environment sample_tables ''prod''),
      Sync_column_tags \<lparr>atlas_client = ''http://atlas'', retry_args = Some (6, 60)\<rparr>
        (add_environment sample_columns ''prod'')]"
  using tags_to_atlas_tables_before_columns[of sample_world "''src''" "''prod''" 2 1 None,
      THEN conjunct2, rule_format,
      of sample_conf "''http://atlas''" "\<lparr>atlas_client = ''http://atlas'', retry_args = Some (6, 60)\<rparr>"
         sample_tables "JList []" sample_columns]
  by (simp add: sample_world_def sample_conf_def missing_files_def sample_paths)

subsection \<open>A failed sync\<close>

lemma sync_tags_raises:
  assumes "outcome (sync_tags w c tf cf env verbose) = Inl e"
  shows "\<exists>pre ev. trace (sync_tags w c tf cf env verbose) = pre @ [ev] \<and>
           (ev = Read_file tf \<and> read_file w tf = Inl e
            \<or> (\<exists>rs. ev = Sync_table_tags c rs \<and> sync_table_tags w c rs = Inl e)
            \<or> ev = Read_file cf \<and> read_file w cf = Inl e
            \<or> (\<exists>rs. ev = Sync_column_tags c rs \<and> sync_column_tags w c rs = Inl e))"
  using assms unfolding sync_tags_def
  by (auto simp: run_simps split: sum.splits if_splits)



subsection \<open>The runs of audit_tags\<close>

lemma printed_simps [simp]:
  "printed [] = []"
  "printed (ev # tr) = (case ev of Print s \<Rightarrow> [s] | _ \<Rightarrow> []) @ printed tr"
  "printed (a @ b) = printed a @ printed b"
  by (simp_all add: printed_def)

lemma report_table_diffs_outcome [simp]: "outcome (report_table_diffs diffs) = Inr ()"
  by (induction diffs rule: report_table_diffs.induct) (simp_all add: run_simps outcome_and_then)

lemma report_column_diffs_outcome [simp]: "outcome (report_column_diffs diffs) = Inr ()"
  by (induction diffs rule: report_column_diffs.induct) (simp_all add: run_simps outcome_and_then)

lemma report_table_diffs_trace:
  "trace (report_table_diffs diffs) =
     map Print (concat (map (\<lambda>(d, only_src, only_atlas).
       (if only_src = [] then []
        else [''Atlas missing following tags for table: '' @ d @ '' tags: '' @ join '', '' only_src]) @
       (if only_atlas = [] then []
        else [''Metadata missing following tags for table: '' @ d @ '' tags: '' @ join '', '' only_atlas]))
       diffs))"
  by (induction diffs rule: report_table_diffs.induct) (simp_all add: run_simps trace_and_then)

lemma report_column_diffs_trace:
  "trace (report_column_diffs diffs) =
     map Print (concat (map (\<lambda>(d, only_src, only_atlas).
       (if only_src = [] then []
        else [''Atlas missing following tags for column: '' @ d @ '' tags: '' @ join '', '' only_src]) @
       (if only_atlas = [] then []
        else [''Metadata missing following tags for column: '' @ d @ '' tags: '' @ join '', '' only_atlas]))
       diffs))"
  by (induction diffs rule: report_column_diffs.induct) (simp_all add: run_simps trace_and_then)

lemma printed_map_Print [simp]: "printed (map Print ls) = ls"
  by (induction ls) simp_all

lemma audit_unknown_tags_run:
  "audit_unknown_tags w c T C =
     (case tags_from_atlas w c of
        Inl e \<Rightarrow> ([Tags_from_src T, Tags_from_src C, Tags_from_atlas c], Inl e)
      | Inr known \<Rightarrow>
          ([Tags_from_src T, Tags_from_src C, Tags_from_atlas c] @
           map Print
             (if pyset_diff (pyset_union (tags_from_src w T) (tags_from_src w C)) known = [] then []
              else [''Tag(s) missing in Atlas: '' @
                    join '', '' (pyset_diff (pyset_union (tags_from_src w T) (tags_from_src w C)) known)]),
           Inr ()))"
  unfolding audit_unknown_tags_def
  by (simp add: run_simps Let_def split: sum.splits)

lemma audit_presence_run:
  "audit_presence w c T C =
     (case tables_from_atlas w c (schemas_from_src w T) of
        Inl e \<Rightarrow> ([Schemas_from_src T, Tables_from_atlas c (schemas_from_src w T)], Inl e)
      | Inr ta \<Rightarrow>
         (case columns_from_atlas w c (tables_from_src w C) of
            Inl e \<Rightarrow> ([Schemas_from_src T, Tables_from_atlas c (schemas_from_src w T),
                       Tables_from_src C, Columns_from_atlas c (tables_from_src w C)], Inl e)
          | Inr ca \<Rightarrow>
             ([Schemas_from_src T, Tables_from_atlas c (schemas_from_src w T),
               Tables_from_src C, Columns_from_atlas c (tables_from_src w C), Tables_from_src T] @
              map Print
                (if pyset_diff (pyset (map fst ta)) (pyset (tables_from_src w T)) = [] then []
                 else [''Tables only found in Atlas schema: '' @
                       join '', '' (pyset_diff (pyset (map fst ta)) (pyset (tables_from_src w T)))]) @
              map Print
                (if pyset_diff (pyset (tables_from_src w T)) (pyset (map fst ta)) = [] then []
                 else [''Tables only found in metadata schema: '' @
                       join '', '' (pyset_diff (pyset (tables_from_src w T)) (pyset (map fst ta)))]) @
              [Columns_from_src C] @
              map Print
                (if pyset_diff (pyset (columns_from_src w C)) (pyset (map fst ca)) = [] then []
                 else [''Columns only found in metadata: '' @
                       join '', '' (pyset_diff (pyset (columns_from_src w C)) (pyset (map fst ca)))]),
              Inr (ta, ca))))"
  unfolding audit_presence_def
  by (simp add: run_simps Let_def split: sum.splits)

lemma audit_tag_diffs_run:
  "audit_tag_diffs w T C ta ca =
     ([Diff_table_tags T ta] @ trace (report_table_diffs (diff_table_tags w T ta)) @
      [Diff_column_tags C ca] @ trace (report_column_diffs (diff_column_tags w C ca)), Inr ())"
  unfolding audit_tag_diffs_def
  by (simp add: run_simps prod_eq_iff trace_and_then outcome_and_then)


lemma audit_no_conf:
  assumes "JSONPropertiesFile_get w config environment = Inl e"
  shows "audit w srcdir environment config = ([Load_config config environment], Inl e)"
  using assms unfolding audit_def
  by (simp add: run_simps Let_def)

lemma audit_missing:
  assumes "JSONPropertiesFile_get w config environment = Inr conf"
    and "missing_files w [table_file srcdir, column_file srcdir] \<noteq> []"
  shows "audit w srcdir environment config =
    ([Load_config config environment,
      Print (join ''Following files are missing: , '' (missing_files w [table_file srcdir, column_file srcdir])),
      Print ''Will not run, exiting!''], Inr (Some 0))"
  using assms unfolding audit_def
  by (simp add: run_simps Let_def report_missing_def)

lemma audit_no_url:
  assumes "JSONPropertiesFile_get w config environment = Inr conf"
    and "missing_files w [table_file srcdir, column_file srcdir] = []"
    and "atlas_api_url conf = None"
  shows "audit w srcdir environment config =
    ([Load_config config environment, New_HTTPKerberosAuth], Inl (KeyError ''atlas_api_url''))"
  using assms unfolding audit_def
  by (simp add: run_simps Let_def)

lemma audit_run:
  assumes "JSONPropertiesFile_get w config environment = Inr conf"
    and "missing_files w [table_file srcdir, column_file srcdir] = []"
    and "atlas_api_url conf = Some url"
    and "c = \<lparr>atlas_client = url, retry_args = None\<rparr>"
    and "body = audit_tags w c (table_file srcdir) (column_file srcdir) environment"
  shows "audit w srcdir environment config =
    ([Load_config config environment, New_HTTPKerberosAuth, New_atlas_Client url, New_tagsync_Sync c] @ trace body,
     case outcome body of
       Inl (IOError m) \<Rightarrow> Inl (ClickException m)
     | Inl e \<Rightarrow> Inl e
     | Inr _ \<Rightarrow> Inr None)"
  using assms unfolding audit_def
  by (simp add: run_simps Let_def trace_try_except outcome_try_except
      trace_and_then outcome_and_then audit_handler_def prod_eq_iff split: sum.splits option.splits exn.splits)

lemma audit_tags_run:
  assumes "read_file w tf = Inr rt" and "read_file w cf = Inr rc"
    and "T = add_environment rt env" and "C = add_environment rc env"
  shows "audit_tags w c tf cf env =
     and_then ([Read_file tf, Read_file cf], Inr ()) (\<lambda>_.
     and_then (audit_unknown_tags w c T C) (\<lambda>_.
     and_then (audit_presence w c T C) (\<lambda>atlas.
     audit_tag_diffs w T C (fst atlas) (snd atlas))))"
  using assms unfolding audit_tags_def
  by (simp add: run_simps Let_def prod_eq_iff trace_and_then outcome_and_then)

lemma audit_tags_complete:
  assumes "read_file w tf = Inr rt" and "read_file w cf = Inr rc"
    and "T = add_environment rt env" and "C = add_environment rc env"
    and "tags_from_atlas w c = Inr known"
    and "tables_from_atlas w c (schemas_from_src w T) = Inr ta"
    and "columns_from_atlas w c (tables_from_src w C) = Inr ca"
  shows "outcome (audit_tags w c tf cf env) = Inr ()"
    and "printed (trace (audit_tags w c tf cf env)) =
      (if pyset_diff (pyset_union (tags_from_src w T) (tags_from_src w C)) known = [] then []
       else [''Tag(s) missing in Atlas: '' @
             join '', '' (pyset_diff (pyset_union (tags_from_src w T) (tags_from_src w C)) known)]) @
      (if pyset_diff (pyset (map fst ta)) (pyset (tables_from_src w T)) = [] then []
       else [''Tables only found in Atlas schema: '' @
             join '', '' (pyset_diff (pyset (map fst ta)) (pyset (tables_from_src w T)))]) @
      (if pyset_diff (pyset (tables_from_src w T)) (pyset (map fst ta)) = [] then []
       else [''Tables only found in metadata schema: '' @
             join '', '' (pyset_diff (pyset (tables_from_src w T)) (pyset (map fst ta)))]) @
      (if pyset_diff (pyset (columns_from_src w C)) (pyset (map fst ca)) = [] then []
       else [''Columns only found in metadata: '' @
             join '', '' (pyset_diff (pyset (columns_from_src w C)) (pyset (map fst ca)))]) @
      concat (map (\<lambda>(d, only_src, only_atlas).
         (if only_src = [] then []
          else [''Atlas missing following tags for table: '' @ d @ '' tags: '' @ join '', '' only_src]) @
         (if only_atlas = [] then []
          else [''Metadata missing following tags for table: '' @ d @ '' tags: '' @ join '', '' only_atlas]))
         (diff_table_tags w T ta)) @
      concat (map (\<lambda>(d, only_src, only_atlas).
         (if only_src = [] then []
          else [''Atlas missing following tags for column: '' @ d @ '' tags: '' @ join '', '' only_src]) @
         (if only_atlas = [] then []
          else [''Metadata missing following tags for column: '' @ d @ '' tags: '' @ join '', '' only_atlas]))
         (diff_column_tags w C ca))"
  using assms(5-7)
  by (simp_all add: audit_tags_run[OF assms(1-4)] audit_unknown_tags_run audit_presence_run
      audit_tag_diffs_run report_table_diffs_trace report_column_diffs_trace)


subsection \<open>Unknown tags\<close>

lemma filter_concat_map_empty:
  "(\<And>x. x \<in> set xs \<Longrightarrow> filter P (f x) = []) \<Longrightarrow> filter P (concat (map f xs)) = []"
  by (induction xs) simp_all

lemma pyset_diff_set [simp]: "set (pyset_diff xs ys) = set xs - set ys"
  by (auto simp: pyset_diff_def)

lemma pyset_union_set [simp]: "set (pyset_union xs ys) = set xs \<union> set ys"
  by (simp add: pyset_union_def)

lemma pyset_set [simp]: "set (pyset xs) = set xs"
  by (simp add: pyset_def)

lemma pyset_diff_distinct [simp]: "distinct (pyset_diff xs ys)"
  by (simp add: pyset_diff_def)

lemma audit_presence_no_unknown_tags_line:
  "filter (prefix ''Tag(s) missing in Atlas: '') (printed (trace (audit_presence w c T C))) = []"
  by (simp add: audit_presence_run split: sum.splits)

lemma audit_tag_diffs_no_unknown_tags_line:
  "filter (prefix ''Tag(s) missing in Atlas: '') (printed (trace (audit_tag_diffs w T C ta ca))) = []"
  by (auto simp: audit_tag_diffs_run report_table_diffs_trace report_column_diffs_trace
      intro!: filter_concat_map_empty)






lemma sample_setup:
  "JSONPropertiesFile_get sample_world None ''prod'' = Inr sample_conf"
  "missing_files sample_world [table_file ''src'', column_file ''src''] = []"
  "atlas_api_url sample_conf = Some ''http://atlas''"
  "read_file sample_world (table_file ''src'') = Inr sample_tables"
  "read_file sample_world (column_file ''src'') = Inr sample_columns"
  by (simp_all add: sample_world_def sample_conf_def missing_files_def sample_paths)

lemma sample_lengths:
  "length (add_environment sample_tables ''prod'') = 1"
  "length (add_environment sample_columns ''prod'') = 2"
  by (simp_all add: add_environment_def sample_tables_def sample_columns_def)




subsection \<open>The runs of rules_to_ranger\<close>

lemma rules_no_conf:
  assumes "JSONPropertiesFile_get w config environment = Inl e"
  shows "rules_to_ranger_cmd w srcdir project_name environment config verbose dryrun =
    ([Load_config config environment], Inl e)"
  using assms unfolding rules_to_ranger_cmd_def
  by (simp add: run_simps Let_def)

lemma rules_missing:
  assumes "JSONPropertiesFile_get w config environment = Inr conf"
    and "missing_files w [table_file srcdir, column_file srcdir, policy_file srcdir] \<noteq> []"
  shows "rules_to_ranger_cmd w srcdir project_name environment config verbose dryrun =
    ([Load_config config environment,
      Print (join ''Following files are missing: , ''
               (missing_files w [table_file srcdir, column_file srcdir, policy_file srcdir])),
      Print ''Will not run, exiting!''], Inr (Some 0))"
  using assms unfolding rules_to_ranger_cmd_def
  by (simp add: run_simps Let_def report_missing_def)

lemma rules_no_url:
  assumes "JSONPropertiesFile_get w config environment = Inr conf"
    and "missing_files w [table_file srcdir, column_file srcdir, policy_file srcdir] = []"
    and "ranger_api_url conf = None"
  shows "rules_to_ranger_cmd w srcdir project_name environment config verbose dryrun =
    ([Load_config config environment], Inl (KeyError ''ranger_api_url''))"
  using assms unfolding rules_to_ranger_cmd_def
  by (simp add: run_simps Let_def)

text \<open>Lines 101 to 125, once the clients are built.\<close>

lemma rules_run:
  assumes "JSONPropertiesFile_get w config environment = Inr conf"
    and "missing_files w [table_file srcdir, column_file srcdir, policy_file srcdir] = []"
    and "ranger_api_url conf = Some url"
    and "c = \<lparr>ranger_client = url, sync_verbose = verbose, sync_dryrun = dryrun\<rparr>"
    and "ps = [project_name @ ''_'' @ environment, ''load_etl_'']"
  shows "rules_to_ranger_cmd w srcdir project_name environment config verbose dryrun =
    (case read_file w (table_file srcdir) of
       Inl e \<Rightarrow> ([Load_config config environment, New_HTTPKerberosAuth, New_ranger_Client url,
                  New_RangerSync c, Read_file (table_file srcdir)], Inl e)
     | Inr tables \<Rightarrow>
        (case read_file w (column_file srcdir) of
           Inl e \<Rightarrow> ([Load_config config environment, New_HTTPKerberosAuth, New_ranger_Client url,
                      New_RangerSync c, Read_file (table_file srcdir), Read_file (column_file srcdir)], Inl e)
         | Inr columns \<Rightarrow>
            (case json_load w (policy_file srcdir) of
               Inl e \<Rightarrow> ([Load_config config environment, New_HTTPKerberosAuth, New_ranger_Client url,
                          New_RangerSync c, Read_file (table_file srcdir), Read_file (column_file srcdir),
                          Json_load (policy_file srcdir)], Inl e)
             | Inr commands \<Rightarrow>
                (case apply_commands w commands (make_context conf project_name environment tables columns) of
                   Inl e \<Rightarrow> ([Load_config config environment, New_HTTPKerberosAuth, New_ranger_Client url,
                              New_RangerSync c, Read_file (table_file srcdir), Read_file (column_file srcdir),
                              Json_load (policy_file srcdir),
                              Apply_commands commands (make_context conf project_name environment tables columns)],
                             Inl e)
                 | Inr policies \<Rightarrow>
                     ([Load_config config environment, New_HTTPKerberosAuth, New_ranger_Client url,
                       New_RangerSync c, Read_file (table_file srcdir), Read_file (column_file srcdir),
                       Json_load (policy_file srcdir),
                       Apply_commands commands (make_context conf project_name environment tables columns),
                       Sync_policies c ps policies],
                      case sync_policies w c ps policies of Inl e \<Rightarrow> Inl e | Inr _ \<Rightarrow> Inr None)))))"
  using assms unfolding rules_to_ranger_cmd_def
  by (simp add: run_simps Let_def split: sum.splits)

text \<open>
  Claim C9. Whenever a run of \<^verbatim>\<open>rules_to_ranger\<close> calls the policy syncer, the name
  prefixes it passes are exactly two, in this order: the project name, an underscore and
  the environment; and the fixed text \<^verbatim>\<open>load_etl_\<close>. The policies it passes are the whole
  list that \<^verbatim>\<open>apply_commands\<close> returned for the commands of the policy file. When the
  configuration loads, no file is missing, the policy service address is configured and
  the files are read and expanded, the syncer is called exactly once, in this way.
\<close>

theorem rules_to_ranger_prefixes:
  "(\<forall>c ps policies.
      Sync_policies c ps policies
        \<in> set (trace (rules_to_ranger_cmd w srcdir project_name environment config verbose dryrun)) \<longrightarrow>
      ps = [project_name @ ''_'' @ environment, ''load_etl_''] \<and>
      (\<exists>conf tables columns commands.
          JSONPropertiesFile_get w config environment = Inr conf \<and>
          read_file w (table_file srcdir) = Inr tables \<and>
          read_file w (column_file srcdir) = Inr columns \<and>
          json_load w (policy_file srcdir) = Inr commands \<and>
          apply_commands w commands (make_context conf project_name environment tables columns) = Inr policies))
   \<and> (\<forall>conf url tables columns commands policies.
        JSONPropertiesFile_get w config environment = Inr conf \<and>
        missing_files w [table_file srcdir, column_file srcdir, policy_file srcdir] = [] \<and>
        ranger_api_url conf = Some url \<and>
        read_file w (table_file srcdir) = Inr tables \<and>
        read_file w (column_file srcdir) = Inr columns \<and>
        json_load w (policy_file srcdir) = Inr commands \<and>
        apply_commands w commands (make_context conf project_name environment tables columns) = Inr policies \<longrightarrow>
        filter policy_sync_call
          (trace (rules_to_ranger_cmd w srcdir project_name environment config verbose dryrun)) =
          [Sync_policies \<lparr>ranger_client = url, sync_verbose = verbose, sync_dryrun = dryrun\<rparr>
             [project_name @ ''_'' @ environment, ''load_etl_''] policies])"
proof (cases "JSONPropertiesFile_get w config environment")
  case (Inl e)
  show ?thesis using Inl by (simp add: rules_no_conf[OF Inl])
next
  case (Inr conf)
  show ?thesis
  proof (cases "missing_files w [table_file srcdir, column_file srcdir, policy_file srcdir] = []")
    case False
    show ?thesis using Inr False by (simp add: rules_missing[OF Inr False])
  next
    case True
    show ?thesis
    proof (cases "ranger_api_url conf")
      case None
      show ?thesis using Inr True None by (simp add: rules_no_url[OF Inr True None])
    next
      case (Some url)
      show ?thesis using Inr True Some
        by (auto simp: rules_run[OF Inr True Some refl refl] split: sum.splits)
    qed
  qed
qed


lemma sample_rules_setup:
  "JSONPropertiesFile_get sample_world None ''dev'' = Inr sample_conf"
  "missing_files sample_world [table_file ''src'', column_file ''src'', policy_file ''src''] = []"
  "ranger_api_url sample_conf = Some ''http://ranger''"
  by (simp_all add: sample_world_def sample_conf_def missing_files_def)

theorem rules_to_ranger_prefixes_witness:
  "filter policy_sync_call (trace (rules_to_ranger_cmd sample_world ''src'' ''shop'' ''dev'' None 0 False)) =
     [Sync_policies \<lparr>ranger_client = ''http://ranger'', sync_verbose = 0, sync_dryrun = False\<rparr>
        [''shop_dev'', ''load_etl_''] [JStr ''policy'']]"
  using rules_to_ranger_prefixes[of sample_world "''src''" "''shop''" "''dev''" None 0 False,
      THEN conjunct2, rule_format,
      of sample_conf "''http://ranger''" sample_tables sample_columns "JList []" "[JStr ''policy'']"]
  by (simp add: sample_world_def sample_conf_def missing_files_def sample_paths)

subsection \<open>Variables of the configuration\<close>

lemma map_of_add_variables:
  "map_of (add_variables vars d) n =
     (case map_of (rev vars) n of Some v \<Rightarrow> Some (CJson v) | None \<Rightarrow> map_of d n)"
proof (induction vars arbitrary: d)
  case Nil
  show ?case by (simp add: add_variables_def)
next
  case (Cons x xs)
  have step: "add_variables (x # xs) d = add_variables xs (AList.update (fst x) (CJson (snd x)) d)"
    by (simp add: add_variables_def)
  show ?case
    unfolding step Cons.IH
    by (cases x) (simp add: update_conv' map_add_def split: option.splits)
qed

text \<open>
  Claim C10. Take a run of \<^verbatim>\<open>rules_to_ranger\<close> that reaches the template expansion. The
  first eight events of the run end with the call of \<^verbatim>\<open>apply_commands\<close> on the context
  built in lines 108 to 119, and nothing is printed or raised while that context is
  built. In that context a name that the configuration declares is bound to the value
  of its last declaration, also when the name is \<^verbatim>\<open>project_name\<close>, \<^verbatim>\<open>environment\<close>,
  \<^verbatim>\<open>tables\<close> or \<^verbatim>\<open>table_columns\<close>; a name the configuration does not declare keeps
  the value derived from the run.
\<close>

theorem config_variables_overwrite:
  assumes "JSONPropertiesFile_get w config environment = Inr conf"
    and "missing_files w [table_file srcdir, column_file srcdir, policy_file srcdir] = []"
    and "ranger_api_url conf = Some url"
    and "read_file w (table_file srcdir) = Inr tables"
    and "read_file w (column_file srcdir) = Inr columns"
    and "json_load w (policy_file srcdir) = Inr commands"
    and "ctx = make_context conf project_name environment tables columns"
  shows "take 8 (trace (rules_to_ranger_cmd w srcdir project_name environment config verbose dryrun)) =
           [Load_config config environment, New_HTTPKerberosAuth, New_ranger_Client url,
            New_RangerSync \<lparr>ranger_client = url, sync_verbose = verbose, sync_dryrun = dryrun\<rparr>,
            Read_file (table_file srcdir), Read_file (column_file srcdir),
            Json_load (policy_file srcdir), Apply_commands commands ctx]
       \<and> (\<forall>vars n v. variables conf = Some vars \<and> map_of (rev vars) n = Some v \<longrightarrow>
             map_of ctx n = Some (CJson v))
       \<and> (\<forall>n. map_of (rev (case variables conf of None \<Rightarrow> [] | Some vars \<Rightarrow> vars)) n = None \<longrightarrow>
             map_of ctx n =
               map_of [(''project_name'', CStr project_name),
                       (''environment'', CStr environment),
                       (''tables'', CRows tables),
                       (''table_columns'', CGroups (group_columns columns))] n)"
proof -
  have "take 8 (trace (rules_to_ranger_cmd w srcdir project_name environment config verbose dryrun)) =
           [Load_config config environment, New_HTTPKerberosAuth, New_ranger_Client url,
            New_RangerSync \<lparr>ranger_client = url, sync_verbose = verbose, sync_dryrun = dryrun\<rparr>,
            Read_file (table_file srcdir), Read_file (column_file srcdir),
            Json_load (policy_file srcdir), Apply_commands commands ctx]"
    using assms(4) assms(5) assms(6) assms(7)
    by (simp add: rules_run[OF assms(1) assms(2) assms(3) refl refl] split: sum.splits)
  moreover have "\<forall>vars n v. variables conf = Some vars \<and> map_of (rev vars) n = Some v \<longrightarrow>
             map_of ctx n = Some (CJson v)"
    by (simp add: assms(7) make_context_def Let_def map_of_add_variables get_default_def)
  moreover have "\<forall>n. map_of (rev (case variables conf of None \<Rightarrow> [] | Some vars \<Rightarrow> vars)) n = None \<longrightarrow>
             map_of ctx n =
               map_of [(''project_name'', CStr project_name),
                       (''environment'', CStr environment),
                       (''tables'', CRows tables),
                       (''table_columns'', CGroups (group_columns columns))] n"
    by (simp add: assms(7) make_context_def Let_def map_of_add_variables get_default_def)
  ultimately show ?thesis by blast
qed

theorem config_variables_overwrite_witness:
  "map_of (make_context sample_conf ''shop'' ''dev'' sample_tables sample_columns) ''environment'' =
     Some (CJson (JStr ''staging''))
   \<and> map_of (make_context sample_conf ''shop'' ''dev'' sample_tables sample_columns) ''project_name'' =
     Some (CStr ''shop'')"
proof -
  have rd: "read_file sample_world (table_file ''src'') = Inr sample_tables"
    "read_file sample_world (column_file ''src'') = Inr sample_columns"
    "json_load sample_world (policy_file ''src'') = Inr (JList [])"
    by (simp_all add: sample_world_def sample_paths)
  note t = config_variables_overwrite[OF sample_rules_setup(1) sample_rules_setup(2) sample_rules_setup(3)
      rd(1) rd(2) rd(3) refl, of "''shop''" 0 False]
  have 1: "map_of (make_context sample_conf ''shop'' ''dev'' sample_tables sample_columns) ''environment'' =
     Some (CJson (JStr ''staging''))"
    using t[THEN conjunct2, THEN conjunct1, rule_format,
        of "[(''environment'', JStr ''staging''), (''owner'', JStr ''etl'')]" "''environment''" "JStr ''staging''"]
    by (simp add: sample_conf_def)
  have 2: "map_of (make_context sample_conf ''shop'' ''dev'' sample_tables sample_columns) ''project_name'' =
     Some (CStr ''shop'')"
    using t[THEN conjunct2, THEN conjunct2, rule_format, of "''project_name''"]
    by (simp add: sample_conf_def)
  from 1 2 show ?thesis by simp
qed

subsection \<open>Missing source files\<close>

lemma join_lists: "f \<in> set xs \<Longrightarrow> sublist f (join sep xs)"
proof (induction sep xs rule: join.induct)
  case (1 sep)
  then show ?case by simp
next
  case (2 sep x)
  then show ?case by simp
next
  case (3 sep x y ys)
  show ?case
  proof (cases "f = x")
    case True
    then show ?thesis by (simp add: sublist_append_rightI)
  next
    case False
    with 3 have "sublist f (join sep (y # ys))" by simp
    then have "sublist f ((x @ sep) @ join sep (y # ys))" by (simp add: sublist_append)
    then show ?thesis by simp
  qed
qed



subsection \<open>The environment tag\<close>

lemma stamped: "r \<in> set (add_environment rs env) \<Longrightarrow> env \<in> tags r"
  by (auto simp: add_environment_def)

lemma sync_tags_stamped:
  "ev \<in> set (trace (sync_tags w c tf cf env verbose)) \<Longrightarrow> r \<in> set (event_records ev) \<Longrightarrow> env \<in> tags r"
  unfolding sync_tags_def
  by (auto simp: run_simps split: sum.splits if_splits dest: stamped)

lemma audit_tags_stamped:
  "ev \<in> set (trace (audit_tags w c tf cf env)) \<Longrightarrow> r \<in> set (event_records ev) \<Longrightarrow> env \<in> tags r"
  unfolding audit_tags_def
  by (auto simp: run_simps Let_def trace_and_then audit_unknown_tags_run audit_presence_run
      audit_tag_diffs_run report_table_diffs_trace report_column_diffs_trace
      split: sum.splits if_splits dest: stamped)


lemma tags_to_atlas_stamped:
  "ev \<in> set (trace (tags_to_atlas w srcdir environment retry verbose config)) \<Longrightarrow>
   r \<in> set (event_records ev) \<Longrightarrow> environment \<in> tags r"
proof (cases "JSONPropertiesFile_get w config environment")
  case (Inl e)
  assume "ev \<in> set (trace (tags_to_atlas w srcdir environment retry verbose config))"
    and "r \<in> set (event_records ev)"
  then show ?thesis by (auto simp: tags_to_atlas_no_conf[OF Inl])
next
  case (Inr conf)
  assume ev: "ev \<in> set (trace (tags_to_atlas w srcdir environment retry verbose config))"
    and r: "r \<in> set (event_records ev)"
  show ?thesis
  proof (cases "missing_files w [table_file srcdir, column_file srcdir] = []")
    case False
    show ?thesis using ev r by (auto simp: tags_to_atlas_missing[OF Inr False])
  next
    case True
    show ?thesis
    proof (cases "atlas_api_url conf")
      case None
      show ?thesis using ev r by (auto simp: tags_to_atlas_no_url[OF Inr True None])
    next
      case (Some url)
      show ?thesis using ev r
        by (auto simp: tags_to_atlas_run[OF Inr True Some refl refl] dest: sync_tags_stamped)
    qed
  qed
qed

lemma audit_stamped:
  "ev \<in> set (trace (audit w srcdir environment config)) \<Longrightarrow>
   r \<in> set (event_records ev) \<Longrightarrow> environment \<in> tags r"
proof (cases "JSONPropertiesFile_get w config environment")
  case (Inl e)
  assume "ev \<in> set (trace (audit w srcdir environment config))"
    and "r \<in> set (event_records ev)"
  then show ?thesis by (auto simp: audit_no_conf[OF Inl])
next
  case (Inr conf)
  assume ev: "ev \<in> set (trace (audit w srcdir environment config))"
    and r: "r \<in> set (event_records ev)"
  show ?thesis
  proof (cases "missing_files w [table_file srcdir, column_file srcdir] = []")
    case False
    show ?thesis using ev r by (auto simp: audit_missing[OF Inr False])
  next
    case True
    show ?thesis
    proof (cases "atlas_api_url conf")
      case None
      show ?thesis using ev r by (auto simp: audit_no_url[OF Inr True None])
    next
      case (Some url)
      show ?thesis using ev r
        by (auto simp: audit_run[OF Inr True Some refl refl] dest: audit_tags_stamped)
    qed
  qed
qed

text \<open>
  Claim C8. In every run of \<^verbatim>\<open>tags_to_atlas\<close> and in every run of \<^verbatim>\<open>audit_tags\<close>, each
  source record that the command hands to \<^verbatim>\<open>tagsync\<close> (to a sync method, to a function
  that collects tags, schemas, tables or columns, or to a function that computes tag
  differences) has the environment of the run among its tags. Adding the environment
  puts it into the tag set of every record and changes nothing else of the record.
\<close>

theorem environment_added_first:
  "(\<forall>ev \<in> set (trace (tags_to_atlas w srcdir environment retry verbose config)).
      \<forall>r \<in> set (event_records ev). environment \<in> tags r)
   \<and> (\<forall>ev \<in> set (trace (audit w srcdir environment config)).
      \<forall>r \<in> set (event_records ev). environment \<in> tags r)
   \<and> map tags (add_environment records environment) = map (\<lambda>r. insert environment (tags r)) records
   \<and> map schema (add_environment records environment) = map schema records
   \<and> map table (add_environment records environment) = map table records
   \<and> map column (add_environment records environment) = map column records"
  by (auto simp: add_environment_def dest: tags_to_atlas_stamped audit_stamped)

theorem environment_added_first_witness:
  "Sync_table_tags \<lparr>atlas_client = ''http://atlas'', retry_args = Some (6, 60)\<rparr>
       [\<lparr>schema = ''sales'', table = ''orders'', column = None, tags = {''prod'', ''pii'', ''finance''}\<rparr>]
     \<in> set (trace (tags_to_atlas sample_world ''src'' ''prod'' 2 1 None))
   \<and> Diff_table_tags
       [\<lparr>schema = ''sales'', table = ''orders'', column = None, tags = {''prod'', ''pii'', ''finance''}\<rparr>]
       [(''sales.orders'', JNull), (''sales.legacy'', JNull)]
     \<in> set (trace (audit sample_world ''src'' ''prod'' None))
   \<and> ''prod'' \<in> tags \<lparr>schema = ''sales'', table = ''orders'', column = None, tags = {''prod'', ''pii'', ''finance''}\<rparr>"
proof -
  let ?r = "\<lparr>schema = ''sales'', table = ''orders'', column = None, tags = {''prod'', ''pii'', ''finance''}\<rparr>"
  let ?c = "\<lparr>atlas_client = ''http://atlas'', retry_args = Some (6, 60)\<rparr>"
  have stamp: "add_environment sample_tables ''prod'' = [?r]"
    by (simp add: add_environment_def sample_tables_def)
  have 1: "Sync_table_tags ?c [?r] \<in> set (trace (tags_to_atlas sample_world ''src'' ''prod'' 2 1 None))"
    by (simp add: tags_to_atlas_run[OF sample_setup(1) sample_setup(2) sample_setup(3) refl refl]
        sample_conf_def sync_tags_def run_simps sample_setup(4) sample_setup(5) stamp[symmetric])
       (simp add: sample_world_def)
  have 2: "Diff_table_tags [?r] [(''sales.orders'', JNull), (''sales.legacy'', JNull)]
             \<in> set (trace (audit sample_world ''src'' ''prod'' None))"
    by (simp add: audit_run[OF sample_setup(1) sample_setup(2) sample_setup(3) refl refl]
        audit_tags_run[OF sample_setup(4) sample_setup(5) refl refl] trace_and_then
        audit_unknown_tags_run audit_presence_run audit_tag_diffs_run stamp[symmetric])
       (simp add: sample_world_def)
  have 3: "''prod'' \<in> tags ?r"
    using environment_added_first[of sample_world "''src''" "''prod''" 2 1 None, THEN conjunct1] 1
    by fastforce
  from 1 2 3 show ?thesis by simp
qed

end
